theory Spec2Isabelle
  imports Main "HOL-Library.Word" "HOL-Library.Sublist" "HOL-Library.List_Lexorder"
begin

section \<open>JavaScript strings\<close>

text \<open>
  A JavaScript string is a sequence of UTF-16 code units. Every string operation of the
  scrapers (\<^verbatim>\<open>indexOf\<close>, \<^verbatim>\<open>replace\<close>, \<^verbatim>\<open>trim\<close>, \<^verbatim>\<open>sort\<close>, the regular expressions, none of
  which carries the \<^verbatim>\<open>u\<close> flag) works on code units, so a string is a list of 16-bit words.
  With the lexicographic order on lists, \<open>\<le>\<close> on \<open>jsstr\<close> is the comparison that
  \<^verbatim>\<open>Array.prototype.sort\<close> uses when it is called without a comparator.
\<close>

type_synonym jschar = "16 word"
type_synonym jsstr = "jschar list"

definition ascii :: "string \<Rightarrow> jsstr" where
  "ascii s = map (\<lambda>c. of_nat (of_char c)) s"

text \<open>\<^verbatim>\<open>s.indexOf(p, i)\<close>: the first position \<open>\<ge> i\<close> at which \<open>p\<close> occurs, \<open>None\<close> for \<open>-1\<close>.\<close>

fun indexOf_aux :: "'a list \<Rightarrow> 'a list \<Rightarrow> nat option" where
  "indexOf_aux p [] = (if p = [] then Some 0 else None)"
| "indexOf_aux p (x # xs) =
     (if prefix p (x # xs) then Some 0 else map_option Suc (indexOf_aux p xs))"

definition indexOf :: "'a list \<Rightarrow> 'a list \<Rightarrow> nat \<Rightarrow> nat option" where
  "indexOf s p i = map_option (\<lambda>k. k + min i (length s)) (indexOf_aux p (drop i s))"

text \<open>\<^verbatim>\<open>s.includes(p)\<close>, and a regular expression made of literal characters tested on \<open>s\<close>.\<close>

definition includes_str :: "'a list \<Rightarrow> 'a list \<Rightarrow> bool" where
  "includes_str s p = (indexOf s p 0 \<noteq> None)"

text \<open>
  \<^verbatim>\<open>s.replace(/p/g, r)\<close> for a pattern \<open>p\<close> of literal characters: matches are taken left to
  right and do not overlap. None of the patterns of the source is empty.
\<close>

function replaceAll :: "'a list \<Rightarrow> 'a list \<Rightarrow> 'a list \<Rightarrow> 'a list" where
  "replaceAll p r [] = []"
| "replaceAll p r (c # cs) =
     (if p \<noteq> [] \<and> prefix p (c # cs)
      then r @ replaceAll p r (drop (length p) (c # cs))
      else c # replaceAll p r cs)"
  by pat_completeness auto
termination
  by (relation "measure (\<lambda>(p, r, s). length s)") (auto simp: neq_Nil_conv)


definition GT :: jschar where "GT = 0x3E"
definition LT :: jschar where "LT = 0x3C"
definition NL :: jschar where "NL = 0x0A"
definition DQ :: jschar where "DQ = 0x22"

text \<open>
  \<^verbatim>\<open>s.replace(/opn[^>]*>/g, r)\<close> for literal characters \<open>opn\<close>: at a position where \<open>opn\<close>
  starts, the match runs to the next \<^verbatim>\<open>>\<close>; when no \<^verbatim>\<open>>\<close> follows there is no match at that
  position and the character is kept.
\<close>

function replaceTag :: "jsstr \<Rightarrow> jsstr \<Rightarrow> jsstr \<Rightarrow> jsstr" where
  "replaceTag opn r [] = []"
| "replaceTag opn r (c # cs) =
     (if opn \<noteq> [] \<and> prefix opn (c # cs)
      then (case dropWhile (\<lambda>x. x \<noteq> GT) (drop (length opn) (c # cs)) of
              [] \<Rightarrow> c # replaceTag opn r cs
            | g # rest \<Rightarrow> r @ replaceTag opn r rest)
      else c # replaceTag opn r cs)"
  by pat_completeness auto
termination
proof (relation "measure (\<lambda>(opn, r, s). length s)", goal_cases)
  case 1
  show ?case by simp
next
  case (2 opn r c cs)
  show ?case by simp
next
  case (3 opn r c cs g rest)
  have "length (g # rest) \<le> length (drop (length opn) (c # cs))"
    using length_dropWhile_le [of "\<lambda>x. x \<noteq> GT" "drop (length opn) (c # cs)"] 3 by simp
  then show ?case by simp
next
  case (4 opn r c cs)
  show ?case by simp
qed

text \<open>\<^verbatim>\<open>s.trim()\<close> removes the code units of WhiteSpace and LineTerminator at both ends.\<close>

definition isWhiteSpace :: "jschar \<Rightarrow> bool" where
  "isWhiteSpace c =
     (c = 0x09 \<or> c = 0x0A \<or> c = 0x0B \<or> c = 0x0C \<or> c = 0x0D \<or> c = 0x20 \<or> c = 0xA0
      \<or> c = 0x1680 \<or> (0x2000 \<le> c \<and> c \<le> 0x200A) \<or> c = 0x2028 \<or> c = 0x2029
      \<or> c = 0x202F \<or> c = 0x205F \<or> c = 0x3000 \<or> c = 0xFEFF)"

definition trim :: "jsstr \<Rightarrow> jsstr" where
  "trim s = rev (dropWhile isWhiteSpace (rev (dropWhile isWhiteSpace s)))"

text \<open>\<^verbatim>\<open>s.split('\n')\<close> and \<^verbatim>\<open>lines.join('\n')\<close>.\<close>

fun split_nl :: "jsstr \<Rightarrow> jsstr list" where
  "split_nl [] = [[]]"
| "split_nl (c # cs) =
     (if c = NL then [] # split_nl cs
      else (case split_nl cs of [] \<Rightarrow> [[c]] | l # ls \<Rightarrow> (c # l) # ls))"

fun join_nl :: "jsstr list \<Rightarrow> jsstr" where
  "join_nl [] = []"
| "join_nl [l] = l"
| "join_nl (l # m # ls) = l @ NL # join_nl (m # ls)"

section \<open>HTML text normalizer (both adapters)\<close>

definition decodeHtmlEntities :: "jsstr \<Rightarrow> jsstr" where
  "decodeHtmlEntities text =
     replaceAll (ascii ''&#39;'') (ascii [CHR 0x27])
       (replaceAll (ascii ''&quot;'') [DQ]
         (replaceAll (ascii ''&gt;'') [GT]
           (replaceAll (ascii ''&lt;'') [LT]
             (replaceAll (ascii ''&amp;'') (ascii ''&'')
               (replaceAll (ascii ''&nbsp;'') (ascii '' '') text)))))"



definition stripHtmlTags :: "jsstr \<Rightarrow> jsstr" where
  "stripHtmlTags text = replaceTag [LT] [] text"

text \<open>The diagnostics written with \<^verbatim>\<open>console.error\<close>.\<close>

datatype diag =
    BodyStartTagNotFound
  | BodyTagNotFound
  | ContentExtractionFailed
  | ChapterExtractionFailed nat
  | ChapterFetchError nat
  | UsageError
  | HttpsRequired jsstr
  | DomainNotAllowed jsstr
  | InvalidUrl jsstr
  | FatalError

text \<open>
  The steps that both adapters apply to the selected content (\<^verbatim>\<open>scrape_novel_ncode.js\<close>
  lines 155 to 169, the kakuyomu script lines 140 to 154): \<^verbatim>\<open>content.replace(/<br[^>]*>/g, '\n')\<close>,
  then \<^verbatim>\<open>stripHtmlTags\<close>, then \<^verbatim>\<open>decodeHtmlEntities\<close>, then the lines split, trimmed and filtered,
  and joined again.
\<close>

definition postProcess :: "jsstr \<Rightarrow> jsstr" where
  "postProcess selected =
     (let content = replaceTag (ascii ''<br'') [NL] selected;
          content = stripHtmlTags content;
          content = decodeHtmlEntities content;
          lines = filter (\<lambda>line. length line > 0) (map (\<lambda>line. trim line) (split_nl content))
      in join_nl lines)"

text \<open>
  The same steps under the names of the specification: line-break tags become newlines,
  \<^verbatim>\<open>stripTags\<close> and \<^verbatim>\<open>decodeEntities\<close> are \<^verbatim>\<open>stripHtmlTags\<close> and \<^verbatim>\<open>decodeHtmlEntities\<close>, and
  \<^verbatim>\<open>cleanLines\<close> splits on newline, trims each line, discards the lines that have become empty
  and joins the rest with newline.
\<close>

definition lineBreaksToNewlines :: "jsstr \<Rightarrow> jsstr" where
  "lineBreaksToNewlines text = replaceTag (ascii ''<br'') [NL] text"

definition cleanLines :: "jsstr \<Rightarrow> jsstr" where
  "cleanLines text = join_nl (filter (\<lambda>l. l \<noteq> []) (map trim (split_nl text)))"

section \<open>The ncode adapter: body extraction\<close>

definition startPattern :: jsstr where
  "startPattern = ascii ''<div class=\"js-novel-text p-novel__text\">''"

text \<open>
  The \<^verbatim>\<open>while (divCount > 0 && currentIndex !== -1)\<close> loop of \<^verbatim>\<open>extractNovelContent\<close>; its
  result is \<^verbatim>\<open>endIndex\<close> when the loop is left. An iteration reads \<^verbatim>\<open>nextDiv\<close> and
  \<^verbatim>\<open>nextEndDiv\<close>; it leaves the loop when there is no \<^verbatim>\<open>nextEndDiv\<close>, counts up when there is
  a \<^verbatim>\<open>nextDiv\<close> before \<^verbatim>\<open>nextEndDiv\<close>, and counts down otherwise.
\<close>

function divLoop :: "jsstr \<Rightarrow> int \<Rightarrow> nat option \<Rightarrow> nat option \<Rightarrow> nat option" where
  "divLoop content divCount endIndex currentIndex =
     (case currentIndex of
        None \<Rightarrow> endIndex
      | Some cur \<Rightarrow>
          if divCount > 0 then
            (case indexOf content (ascii ''</div>'') cur of
               None \<Rightarrow> endIndex
             | Some nextEndDiv \<Rightarrow>
                 (case indexOf content (ascii ''<div'') (cur + 1) of
                    None \<Rightarrow>
                      divLoop content (divCount - 1)
                        (if divCount - 1 = 0 then Some nextEndDiv else endIndex) (Some nextEndDiv)
                  | Some nextDiv \<Rightarrow>
                      if nextDiv < nextEndDiv
                      then divLoop content (divCount + 1) endIndex (Some nextDiv)
                      else divLoop content (divCount - 1)
                        (if divCount - 1 = 0 then Some nextEndDiv else endIndex) (Some nextEndDiv)))
          else endIndex)"
  by pat_completeness auto

text \<open>
  The boundary selection of \<^verbatim>\<open>extractNovelContent\<close> (lines 117 to 153): \<open>None\<close> when the
  start tag is not found, otherwise the content from the start tag on, cut at
  \<^verbatim>\<open>endIndex\<close> when the loop has set one.
\<close>

definition selectContent_ncode :: "jsstr \<Rightarrow> jsstr option" where
  "selectContent_ncode html =
     (case indexOf html startPattern 0 of
        None \<Rightarrow> None
      | Some startMatch \<Rightarrow>
          (let content = drop startMatch html;
               endIndex = divLoop content 1 None (indexOf content (ascii ''<div'') 1)
           in Some (case endIndex of None \<Rightarrow> content | Some e \<Rightarrow> take e content)))"

text \<open>The result and what was written to the error stream.\<close>

definition extractNovelContent_ncode :: "jsstr \<Rightarrow> jsstr \<times> diag list" where
  "extractNovelContent_ncode html =
     (case selectContent_ncode html of
        None \<Rightarrow> ([], [BodyStartTagNotFound])
      | Some selected \<Rightarrow> (postProcess selected, []))"

section \<open>Regular expressions of the adapters\<close>

text \<open>
  \<^verbatim>\<open>s.match(re)\<close> for a regular expression without the \<^verbatim>\<open>g\<close> flag: the match attempt \<open>m\<close>
  is made at position 0, 1, 2, ... and the first success is the result.
\<close>

fun firstMatch :: "(jsstr \<Rightarrow> 'b option) \<Rightarrow> jsstr \<Rightarrow> 'b option" where
  "firstMatch m [] = m []"
| "firstMatch m (c # cs) = (case m (c # cs) of Some x \<Rightarrow> Some x | None \<Rightarrow> firstMatch m cs)"

text \<open>
  A regular expression with the \<^verbatim>\<open>g\<close> flag, for \<^verbatim>\<open>re.exec\<close> in a loop and for \<^verbatim>\<open>s.match(re)\<close>:
  every match from left to right. The attempt \<open>m\<close> answers what is collected and the length
  \<open>n\<close> of the match; the scan resumes at \<^verbatim>\<open>lastIndex\<close>, \<open>n\<close> code units further, so the
  next \<open>n - 1\<close> positions are skipped. No pattern of the source matches the empty string.
\<close>

fun allMatches :: "(jsstr \<Rightarrow> ('b \<times> nat) option) \<Rightarrow> nat \<Rightarrow> jsstr \<Rightarrow> 'b list" where
  "allMatches m skip [] = []"
| "allMatches m (Suc skip) (c # cs) = allMatches m skip cs"
| "allMatches m 0 (c # cs) =
     (case m (c # cs) of
        None \<Rightarrow> allMatches m 0 cs
      | Some (x, n) \<Rightarrow> x # allMatches m (n - 1) cs)"

text \<open>
  \<^verbatim>\<open>opn[^>]*cls[^>]*>([\s\S]*?)close\<close> tried at the head of \<open>s\<close>, for literal \<open>opn\<close>, \<open>cls\<close>
  and \<open>close\<close>. The tag ends at the first \<^verbatim>\<open>>\<close> after \<open>opn\<close>, and \<open>cls\<close> has to occur before
  it; the lazy group runs to the first \<open>close\<close> after the tag. The answer is the group and
  the length of the whole match.
\<close>

definition elementAt :: "jsstr \<Rightarrow> jsstr \<Rightarrow> jsstr \<Rightarrow> jsstr \<Rightarrow> (jsstr \<times> nat) option" where
  "elementAt opn cls close s =
     (if prefix opn s then
        (let rest = drop (length opn) s;
             attrs = takeWhile (\<lambda>x. x \<noteq> GT) rest
         in case dropWhile (\<lambda>x. x \<noteq> GT) rest of
              [] \<Rightarrow> None
            | g # body \<Rightarrow>
                if includes_str attrs cls then
                  (case indexOf body close 0 of
                     None \<Rightarrow> None
                   | Some k \<Rightarrow>
                       Some (take k body, length opn + length attrs + 1 + k + length close))
                else None)
      else None)"



text \<open>\<^verbatim>\<open>\d\<close> is an ASCII digit.\<close>

definition isDigit :: "jschar \<Rightarrow> bool" where
  "isDigit c = (0x30 \<le> c \<and> c \<le> 0x39)"

text \<open>
  \<^verbatim>\<open>href="(\/works\/\d+\/episodes\/\d+)"\<close> tried at the head of \<open>s\<close>: the group and the length
  of the match. Each \<^verbatim>\<open>\d+\<close> is followed by a character that is no digit, so it takes the
  whole run of digits.
\<close>

definition kakuyomuLinkAt :: "jsstr \<Rightarrow> (jsstr \<times> nat) option" where
  "kakuyomuLinkAt s =
     (if prefix (ascii ''href=\"/works/'') s then
        (let r1 = drop (length (ascii ''href=\"/works/'')) s;
             work = takeWhile isDigit r1;
             r2 = dropWhile isDigit r1
         in if work \<noteq> [] \<and> prefix (ascii ''/episodes/'') r2 then
              (let r3 = drop (length (ascii ''/episodes/'')) r2;
                   episode = takeWhile isDigit r3
               in if episode \<noteq> [] \<and> prefix [DQ] (dropWhile isDigit r3)
                  then Some (ascii ''/works/'' @ work @ ascii ''/episodes/'' @ episode,
                             length (ascii ''href=\"/works/'') + length work
                               + length (ascii ''/episodes/'') + length episode + 1)
                  else None)
            else None)
      else None)"

text \<open>
  \<^verbatim>\<open>href="([^"]*n9734kw\/\d+[^"]*)"\<close> tried at the head of \<open>s\<close>. The group cannot hold a
  double quote, so it is the text up to the next double quote, and it has to hold
  \<^verbatim>\<open>n9734kw/\<close> followed by a digit.
\<close>

fun hasWorkPath :: "jsstr \<Rightarrow> bool" where
  "hasWorkPath [] = False"
| "hasWorkPath (c # cs) =
     ((prefix (ascii ''n9734kw/'') (c # cs)
        \<and> (case drop (length (ascii ''n9734kw/'')) (c # cs) of [] \<Rightarrow> False | d # ds \<Rightarrow> isDigit d))
      \<or> hasWorkPath cs)"

definition ncodeLinkAt :: "jsstr \<Rightarrow> (jsstr \<times> nat) option" where
  "ncodeLinkAt s =
     (if prefix (ascii ''href=\"'') s then
        (let rest = drop (length (ascii ''href=\"'')) s;
             target = takeWhile (\<lambda>x. x \<noteq> DQ) rest
         in case dropWhile (\<lambda>x. x \<noteq> DQ) rest of
              [] \<Rightarrow> None
            | q # after \<Rightarrow>
                if hasWorkPath target
                then Some (target, length (ascii ''href=\"'') + length target + 1)
                else None)
      else None)"

section \<open>The kakuyomu adapter: body extraction\<close>

text \<open>
  The three patterns of \<^verbatim>\<open>extractNovelContent\<close> (lines 117 to 138), tried in this order; the
  third one has the \<^verbatim>\<open>g\<close> flag and joins the whole matches with a newline.
\<close>

definition episodeBodyMatch :: "jsstr \<Rightarrow> jsstr option" where
  "episodeBodyMatch html =
     map_option fst
       (firstMatch (elementAt (ascii ''<div'') (ascii ''widget-episodeBody'') (ascii ''</div>'')) html)"

definition workBodyMatch :: "jsstr \<Rightarrow> jsstr option" where
  "workBodyMatch html =
     map_option fst
       (firstMatch (elementAt (ascii ''<div'') (ascii ''widget-workEpisode'') (ascii ''</div>'')) html)"

definition paragraphAt :: "jsstr \<Rightarrow> (jsstr \<times> nat) option" where
  "paragraphAt s =
     (case elementAt (ascii ''<p'') (ascii ''widget-episodeBody-paragraph'') (ascii ''</p>'') s of
        None \<Rightarrow> None
      | Some (inner, n) \<Rightarrow> Some (take n s, n))"

definition generalMatch :: "jsstr \<Rightarrow> jsstr list" where
  "generalMatch html = allMatches paragraphAt 0 html"

definition selectContent_kakuyomu :: "jsstr \<Rightarrow> jsstr option" where
  "selectContent_kakuyomu html =
     (case episodeBodyMatch html of
        Some body \<Rightarrow> Some body
      | None \<Rightarrow>
          (case workBodyMatch html of
             Some body \<Rightarrow> Some body
           | None \<Rightarrow>
               (case generalMatch html of
                  [] \<Rightarrow> None
                | p # ps \<Rightarrow> Some (join_nl (p # ps)))))"

definition extractNovelContent_kakuyomu :: "jsstr \<Rightarrow> jsstr \<times> diag list" where
  "extractNovelContent_kakuyomu html =
     (case selectContent_kakuyomu html of
        None \<Rightarrow> ([], [BodyTagNotFound])
      | Some selected \<Rightarrow> (postProcess selected, []))"

section \<open>Titles\<close>






section \<open>Chapter links\<close>

text \<open>\<^verbatim>\<open>if (!links.includes(link)) links.push(link)\<close>\<close>

definition pushUnique :: "jsstr list \<Rightarrow> jsstr \<Rightarrow> jsstr list" where
  "pushUnique links link = (if link \<in> set links then links else links @ [link])"

definition extractChapterLinks_kakuyomu :: "jsstr \<Rightarrow> jsstr list" where
  "extractChapterLinks_kakuyomu html =
     sort (foldl pushUnique []
       (map (\<lambda>m. ascii ''https://kakuyomu.jp'' @ m) (allMatches kakuyomuLinkAt 0 html)))"

definition extractChapterLinks_ncode :: "jsstr \<Rightarrow> jsstr list" where
  "extractChapterLinks_ncode html =
     sort (foldl pushUnique []
       (map (\<lambda>m. if prefix (ascii ''http'') m then m else ascii ''https://ncode.syosetu.com'' @ m)
          (allMatches ncodeLinkAt 0 html)))"

section \<open>The crawl\<close>

text \<open>
  \<^verbatim>\<open>new URL(urlString)\<close> is the platform's parser: it is a parameter of the model, \<open>None\<close>
  when it throws. Of the parsed URL the scripts read \<^verbatim>\<open>protocol\<close>, \<^verbatim>\<open>hostname\<close> and \<^verbatim>\<open>href\<close>.
\<close>

record url =
  protocol :: jsstr
  hostname :: jsstr
  href :: jsstr

type_synonym url_parser = "jsstr \<Rightarrow> url option"

text \<open>
  A function that may call \<^verbatim>\<open>process.exit(code)\<close> after writing diagnostics either ends the
  process or returns.
\<close>

datatype 'a outcome = Exit int "diag list" | Return 'a

definition parseArguments :: "jsstr list \<Rightarrow> jsstr outcome" where
  "parseArguments args =
     (case args of
        [] \<Rightarrow> Exit 1 [UsageError]
      | a # as \<Rightarrow>
          if ascii ''--help'' \<in> set args \<or> ascii ''-h'' \<in> set args then Exit 0 []
          else Return a)"

text \<open>\<^verbatim>\<open>validateUrl\<close> of an adapter, with its \<^verbatim>\<open>ALLOWED_DOMAIN\<close>.\<close>

definition validateUrl :: "url_parser \<Rightarrow> jsstr \<Rightarrow> jsstr \<Rightarrow> url outcome" where
  "validateUrl URL ALLOWED_DOMAIN urlString =
     (case URL urlString of
        None \<Rightarrow> Exit 1 [InvalidUrl urlString]
      | Some u \<Rightarrow>
          if protocol u \<noteq> ascii ''https:'' then Exit 1 [HttpsRequired urlString]
          else if hostname u \<noteq> ALLOWED_DOMAIN then Exit 1 [DomainNotAllowed (hostname u)]
          else Return u)"





text \<open>
  What a run does to the outside: the URLs given to \<^verbatim>\<open>fetchUrl\<close>, the files written under
  \<^verbatim>\<open>OUTPUT_DIR\<close> (name and content, in the order of the writes) and the error stream. The
  progress messages of \<^verbatim>\<open>console.log\<close> are left out. The network answers the \<open>n\<close>-th request
  of the run for a URL with the response body, or with \<open>None\<close> when the request fails;
  every request is taken to settle.
\<close>

record world =
  fetched :: "jsstr list"
  files :: "(jsstr \<times> jsstr) list"
  errs :: "diag list"

type_synonym network = "nat \<Rightarrow> jsstr \<Rightarrow> jsstr option"

definition world0 :: world where
  "world0 = \<lparr>fetched = [], files = [], errs = []\<rparr>"

definition fetchUrl :: "network \<Rightarrow> jsstr \<Rightarrow> world \<Rightarrow> jsstr option \<times> world" where
  "fetchUrl net u w = (net (length (fetched w)) u, w\<lparr>fetched := fetched w @ [u]\<rparr>)"

text \<open>\<^verbatim>\<open>chapterNum.toString().padStart(3, '0')\<close> for a chapter number.\<close>

definition digitChar :: "nat \<Rightarrow> jschar" where
  "digitChar d = of_nat (48 + d)"

function natToString :: "nat \<Rightarrow> jsstr" where
  "natToString n = (if n < 10 then [digitChar n] else natToString (n div 10) @ [digitChar (n mod 10)])"
  by pat_completeness auto
termination
  by (relation "measure (\<lambda>n. n)") auto

definition padStart3 :: "jsstr \<Rightarrow> jsstr" where
  "padStart3 s = replicate (3 - length s) 0x30 @ s"

definition chapterFileName :: "nat \<Rightarrow> jsstr" where
  "chapterFileName chapterNum = ascii ''chapter_'' @ padStart3 (natToString chapterNum) @ ascii ''.txt''"

text \<open>
  The body of the download loop for the entry \<^verbatim>\<open>chapterLinks[i]\<close>, with its \<^verbatim>\<open>try\<close> and
  \<^verbatim>\<open>catch\<close>: a rejected fetch is reported and nothing else is done for the chapter.
\<close>

definition downloadChapter ::
  "(jsstr \<Rightarrow> jsstr \<times> diag list) \<Rightarrow> network \<Rightarrow> jsstr \<Rightarrow> nat \<Rightarrow> world \<Rightarrow> world" where
  "downloadChapter extractNovelContent net chapterUrl i w =
     (let chapterNum = i + 1 in
      case fetchUrl net chapterUrl w of
        (None, w1) \<Rightarrow> w1\<lparr>errs := errs w1 @ [ChapterFetchError chapterNum]\<rparr>
      | (Some chapterHtml, w1) \<Rightarrow>
          (case extractNovelContent chapterHtml of
             (chapterContent, ds) \<Rightarrow>
               if chapterContent \<noteq> []
               then w1\<lparr>files := files w1 @ [(chapterFileName chapterNum, chapterContent)],
                       errs := errs w1 @ ds\<rparr>
               else w1\<lparr>errs := errs w1 @ ds @ [ChapterExtractionFailed chapterNum]\<rparr>))"

text \<open>
  \<^verbatim>\<open>for (let i = 0; i < downloadCount; i++)\<close> over \<^verbatim>\<open>chapterLinks[i]\<close>: the recursion runs over
  the first \<^verbatim>\<open>downloadCount\<close> entries of the list and carries \<open>i\<close>.
\<close>

fun downloadChapters ::
  "(jsstr \<Rightarrow> jsstr \<times> diag list) \<Rightarrow> network \<Rightarrow> jsstr list \<Rightarrow> nat \<Rightarrow> world \<Rightarrow> world" where
  "downloadChapters extractNovelContent net [] i w = w"
| "downloadChapters extractNovelContent net (chapterUrl # rest) i w =
     downloadChapters extractNovelContent net rest (i + 1)
       (downloadChapter extractNovelContent net chapterUrl i w)"

text \<open>
  \<^verbatim>\<open>main\<close> of an adapter: the two scripts differ in \<^verbatim>\<open>ALLOWED_DOMAIN\<close>, in their extraction
  functions and in \<^verbatim>\<open>downloadCount\<close>, which is \<^verbatim>\<open>Math.min(3, chapterLinks.length)\<close> in the
  kakuyomu script and \<^verbatim>\<open>chapterLinks.length\<close> in the ncode script. The result is the exit
  status and the effects of the run. The calls of \<^verbatim>\<open>fs\<close> are taken to succeed, \<^verbatim>\<open>sleep\<close> has no
  effect on the result, and the title that \<^verbatim>\<open>extractTitle\<close> returns is only logged. With no
  link the loop does nothing, as the \<^verbatim>\<open>else\<close> branch of \<^verbatim>\<open>chapterLinks.length > 0\<close>.
\<close>

definition main ::
  "jsstr \<Rightarrow> (jsstr \<Rightarrow> jsstr \<times> diag list) \<Rightarrow> (jsstr \<Rightarrow> jsstr list) \<Rightarrow> (nat \<Rightarrow> nat)
     \<Rightarrow> url_parser \<Rightarrow> network \<Rightarrow> jsstr list \<Rightarrow> int \<times> world" where
  "main ALLOWED_DOMAIN extractNovelContent extractChapterLinks downloadCount URL net args =
     (case parseArguments args of
        Exit code ds \<Rightarrow> (code, world0\<lparr>errs := ds\<rparr>)
      | Return urlString \<Rightarrow>
          (case validateUrl URL ALLOWED_DOMAIN urlString of
             Exit code ds \<Rightarrow> (code, world0\<lparr>errs := ds\<rparr>)
           | Return novelUrl \<Rightarrow>
               (case fetchUrl net (href novelUrl) world0 of
                  (None, w1) \<Rightarrow> (1, w1\<lparr>errs := errs w1 @ [FatalError]\<rparr>)
                | (Some html, w1) \<Rightarrow>
                    (let w2 = w1\<lparr>files := files w1 @ [(ascii ''index.html'', html)]\<rparr>;
                         w3 = (case extractNovelContent html of
                                 (content, ds) \<Rightarrow>
                                   if content \<noteq> []
                                   then w2\<lparr>files := files w2 @ [(ascii ''content.txt'', content)],
                                           errs := errs w2 @ ds\<rparr>
                                   else w2\<lparr>errs := errs w2 @ ds @ [ContentExtractionFailed]\<rparr>);
                         chapterLinks = extractChapterLinks html
                     in (0, downloadChapters extractNovelContent net
                              (take (downloadCount (length chapterLinks)) chapterLinks) 0 w3)))))"

definition main_kakuyomu :: "url_parser \<Rightarrow> network \<Rightarrow> jsstr list \<Rightarrow> int \<times> world" where
  "main_kakuyomu =
     main (ascii ''kakuyomu.jp'') extractNovelContent_kakuyomu extractChapterLinks_kakuyomu
       (\<lambda>n. min 3 n)"

definition main_ncode :: "url_parser \<Rightarrow> network \<Rightarrow> jsstr list \<Rightarrow> int \<times> world" where
  "main_ncode =
     main (ascii ''ncode.syosetu.com'') extractNovelContent_ncode extractChapterLinks_ncode
       (\<lambda>n. n)"

section \<open>Termination of the div loop\<close>

text \<open>Termination of the loop: \<^verbatim>\<open>indexOf\<close> never answers a position before its start.\<close>

lemma indexOf_aux_bound: "indexOf_aux p s = Some k \<Longrightarrow> k + length p \<le> length s"
proof (induction s arbitrary: k)
  case Nil
  then show ?case by (simp split: if_splits)
next
  case (Cons x xs)
  show ?case
  proof (cases "prefix p (x # xs)")
    case True
    with Cons.prems show ?thesis by (auto dest: prefix_length_le)
  next
    case False
    with Cons.prems obtain j where "indexOf_aux p xs = Some j" "k = Suc j" by auto
    with Cons.IH show ?thesis by fastforce
  qed
qed

lemma indexOf_bounds:
  assumes "indexOf s p i = Some k"
  shows "min i (length s) \<le> k" and "k + length p \<le> length s"
proof -
  from assms obtain j where j: "indexOf_aux p (drop i s) = Some j" "k = j + min i (length s)"
    by (auto simp: indexOf_def)
  show "min i (length s) \<le> k" using j by simp
  from indexOf_aux_bound [OF j(1)] have "j + length p \<le> length s - i" by simp
  then show "k + length p \<le> length s" using j(2) by (auto simp: min_def)
qed

lemma length_ascii [simp]: "length (ascii s) = length s"
  by (simp add: ascii_def)

termination divLoop
proof (relation "measure (\<lambda>(content, divCount, endIndex, currentIndex).
         case currentIndex of None \<Rightarrow> 0 | Some cur \<Rightarrow> 2 * (length content - cur) + nat divCount)",
       goal_cases)
  case 1
  show ?case by simp
next
  case (2 content divCount endIndex currentIndex cur nextEndDiv)
  from indexOf_bounds [OF 2(3)] 2(1,2) show ?case by (simp add: min_def split: if_splits)
next
  case (3 content divCount endIndex currentIndex cur nextEndDiv nextDiv)
  from indexOf_bounds [OF 3(4)] indexOf_bounds [OF 3(3)] 3(1,5) show ?case
    by (simp add: min_def split: if_splits)
next
  case (4 content divCount endIndex currentIndex cur nextEndDiv nextDiv)
  from indexOf_bounds [OF 4(3)] 4(1,2) show ?case by (simp add: min_def split: if_splits)
qed

section \<open>Properties\<close>

subsection \<open>The div counter of the ncode adapter\<close>

text \<open>
  C1. The claim: for a marker element that holds a nested \<^verbatim>\<open>div\<close>, the body runs to the
  closing tag that balances the marker, so that
  \<^verbatim>\<open><div class="js-novel-text p-novel__text"><div>inner</div>more</div>\<close> gives \<^verbatim>\<open>innermore\<close>.
  The code does not do this. The loop starts with \<^verbatim>\<open>currentIndex\<close> already on the first
  \<^verbatim>\<open><div\<close> after the marker and never counts that tag: the counter is still 1 when the
  first \<^verbatim>\<open></div>\<close> is met, drops to 0 there, and the content is cut at the nested closing
  tag. The result on this input is \<^verbatim>\<open>inner\<close>.
\<close>

theorem extractNovelContent_ncode_nested_div:
  "extractNovelContent_ncode
     (ascii ''<div class=\"js-novel-text p-novel__text\"><div>inner</div>more</div>'')
   = (ascii ''inner'', [])"
  by code_simp

subsection \<open>Entity decoding\<close>





















lemma decodeHtmlEntities_amp_lt:
  "decodeHtmlEntities (ascii ''&amp;lt;'') = ascii ''<''"
  by code_simp



subsection \<open>Chapter links: no duplicates, sorted as strings\<close>

lemma distinct_foldl_pushUnique: "distinct acc \<Longrightarrow> distinct (foldl pushUnique acc xs)"
  by (induction xs arbitrary: acc) (auto simp: pushUnique_def)

lemma set_foldl_pushUnique: "set (foldl pushUnique acc xs) = set acc \<union> set xs"
  by (induction xs arbitrary: acc) (auto simp: pushUnique_def)

lemma links_kakuyomu_thrice:
  "extractChapterLinks_kakuyomu
     (ascii ''<a href=\"/works/1/episodes/2\">1</a><a href=\"/works/1/episodes/2\">2</a><a href=\"/works/1/episodes/2\">3</a>'')
   = [ascii ''https://kakuyomu.jp/works/1/episodes/2'']"
  by code_simp

lemma links_kakuyomu_9_10:
  "extractChapterLinks_kakuyomu
     (ascii ''<a href=\"/works/1/episodes/9\">9</a><a href=\"/works/1/episodes/10\">10</a>'')
   = [ascii ''https://kakuyomu.jp/works/1/episodes/10'',
      ascii ''https://kakuyomu.jp/works/1/episodes/9'']"
  by code_simp

lemma links_ncode_9_10_9:
  "extractChapterLinks_ncode
     (ascii ''<a href=\"/n9734kw/9/\">9</a><a href=\"/n9734kw/10/\">10</a><a href=\"/n9734kw/9/\">9</a>'')
   = [ascii ''https://ncode.syosetu.com/n9734kw/10/'',
      ascii ''https://ncode.syosetu.com/n9734kw/9/'']"
  by code_simp

text \<open>
  C4. For every HTML text the list of chapter links of either adapter has no element
  twice and is sorted by \<open>\<le>\<close> on strings, the order of the code units. The same chapter
  path three times gives one link, and the link that ends in 10 comes before the one that
  ends in 9.
\<close>

theorem extractChapterLinks_distinct_sorted:
  "distinct (extractChapterLinks_kakuyomu html) \<and> sorted (extractChapterLinks_kakuyomu html)
   \<and> distinct (extractChapterLinks_ncode html) \<and> sorted (extractChapterLinks_ncode html)
   \<and> extractChapterLinks_kakuyomu
        (ascii ''<a href=\"/works/1/episodes/2\">1</a><a href=\"/works/1/episodes/2\">2</a><a href=\"/works/1/episodes/2\">3</a>'')
      = [ascii ''https://kakuyomu.jp/works/1/episodes/2'']
   \<and> extractChapterLinks_kakuyomu
        (ascii ''<a href=\"/works/1/episodes/9\">9</a><a href=\"/works/1/episodes/10\">10</a>'')
      = [ascii ''https://kakuyomu.jp/works/1/episodes/10'',
         ascii ''https://kakuyomu.jp/works/1/episodes/9'']
   \<and> extractChapterLinks_ncode
        (ascii ''<a href=\"/n9734kw/9/\">9</a><a href=\"/n9734kw/10/\">10</a><a href=\"/n9734kw/9/\">9</a>'')
      = [ascii ''https://ncode.syosetu.com/n9734kw/10/'',
         ascii ''https://ncode.syosetu.com/n9734kw/9/'']"
proof -
  have "distinct (extractChapterLinks_kakuyomu html)"
    by (simp add: extractChapterLinks_kakuyomu_def distinct_foldl_pushUnique)
  moreover have "sorted (extractChapterLinks_kakuyomu html)"
    by (simp add: extractChapterLinks_kakuyomu_def)
  moreover have "distinct (extractChapterLinks_ncode html)"
    by (simp add: extractChapterLinks_ncode_def distinct_foldl_pushUnique)
  moreover have "sorted (extractChapterLinks_ncode html)"
    by (simp add: extractChapterLinks_ncode_def)
  ultimately show ?thesis
    using links_kakuyomu_thrice links_kakuyomu_9_10 links_ncode_9_10_9 by blast
qed

subsection \<open>Kakuyomu links stay on the host\<close>

lemma allMatches_sound: "x \<in> set (allMatches m k s) \<Longrightarrow> \<exists>t n. m t = Some (x, n)"
  by (induction m k s rule: allMatches.induct) (auto split: option.splits)

lemma kakuyomuLinkAt_shape:
  assumes "kakuyomuLinkAt s = Some (x, n)"
  shows "\<exists>work episode. work \<noteq> [] \<and> episode \<noteq> [] \<and> list_all isDigit work
           \<and> list_all isDigit episode
           \<and> x = ascii ''/works/'' @ work @ ascii ''/episodes/'' @ episode"
proof -
  have digits: "list_all isDigit (takeWhile isDigit r)" for r
    by (auto simp: list_all_iff dest: set_takeWhileD)
  from assms show ?thesis
    unfolding kakuyomuLinkAt_def Let_def
    by (auto split: if_splits intro: digits)
qed

text \<open>
  C10. Whatever the HTML text holds, every chapter link of the kakuyomu adapter is
  \<^verbatim>\<open>https://kakuyomu.jp\<close> followed by \<^verbatim>\<open>/works/\<close>, digits, \<^verbatim>\<open>/episodes/\<close>, digits (at least one
  digit each time), and nothing else: an absolute https URL on the host kakuyomu.jp.
\<close>

theorem extractChapterLinks_kakuyomu_on_host:
  "l \<in> set (extractChapterLinks_kakuyomu html) \<Longrightarrow>
     \<exists>work episode. work \<noteq> [] \<and> episode \<noteq> [] \<and> list_all isDigit work \<and> list_all isDigit episode
       \<and> l = ascii ''https://kakuyomu.jp'' @ ascii ''/works/'' @ work @ ascii ''/episodes/'' @ episode"
proof -
  assume "l \<in> set (extractChapterLinks_kakuyomu html)"
  then obtain x where x: "x \<in> set (allMatches kakuyomuLinkAt 0 html)"
    and l: "l = ascii ''https://kakuyomu.jp'' @ x"
    by (auto simp: extractChapterLinks_kakuyomu_def set_foldl_pushUnique)
  from allMatches_sound [OF x] obtain t n where "kakuyomuLinkAt t = Some (x, n)" by blast
  from kakuyomuLinkAt_shape [OF this] l show ?thesis by blast
qed

theorem extractChapterLinks_kakuyomu_on_host_witness:
  "ascii ''https://kakuyomu.jp/works/12/episodes/345''
     \<in> set (extractChapterLinks_kakuyomu
          (ascii ''<a href=\"https://evil.example/works/1/episodes/2\">x</a><a href=\"/works/12/episodes/345\">y</a><a href=\"/works/x/episodes/\">z</a>''))
   \<and> (\<exists>work episode. work \<noteq> [] \<and> episode \<noteq> [] \<and> list_all isDigit work \<and> list_all isDigit episode
       \<and> ascii ''https://kakuyomu.jp/works/12/episodes/345''
          = ascii ''https://kakuyomu.jp'' @ ascii ''/works/'' @ work @ ascii ''/episodes/'' @ episode)"
proof -
  have m: "ascii ''https://kakuyomu.jp/works/12/episodes/345''
     \<in> set (extractChapterLinks_kakuyomu
          (ascii ''<a href=\"https://evil.example/works/1/episodes/2\">x</a><a href=\"/works/12/episodes/345\">y</a><a href=\"/works/x/episodes/\">z</a>''))"
    by code_simp
  from extractChapterLinks_kakuyomu_on_host [OF m] m show ?thesis by blast
qed

subsection \<open>No strategy matches\<close>

text \<open>
  C7. When the start tag of the ncode adapter does not occur in the HTML text, and when
  none of the three patterns of the kakuyomu adapter matches, \<^verbatim>\<open>extractNovelContent\<close> returns
  the empty string and has written one diagnostic; the functions have no other outcome
  than a returned string.
\<close>

theorem extractNovelContent_no_match:
  "(\<not> includes_str html startPattern
      \<longrightarrow> extractNovelContent_ncode html = ([], [BodyStartTagNotFound]))
   \<and> (episodeBodyMatch html = None \<and> workBodyMatch html = None \<and> generalMatch html = []
      \<longrightarrow> extractNovelContent_kakuyomu html = ([], [BodyTagNotFound]))"
  by (simp add: includes_str_def extractNovelContent_ncode_def selectContent_ncode_def
      extractNovelContent_kakuyomu_def selectContent_kakuyomu_def)

theorem extractNovelContent_no_match_witness:
  "\<not> includes_str (ascii ''<html><p>nothing here</p></html>'') startPattern
   \<and> extractNovelContent_ncode (ascii ''<html><p>nothing here</p></html>'')
       = ([], [BodyStartTagNotFound])
   \<and> episodeBodyMatch (ascii ''<html><p>nothing here</p></html>'') = None
   \<and> workBodyMatch (ascii ''<html><p>nothing here</p></html>'') = None
   \<and> generalMatch (ascii ''<html><p>nothing here</p></html>'') = []
   \<and> extractNovelContent_kakuyomu (ascii ''<html><p>nothing here</p></html>'')
       = ([], [BodyTagNotFound])"
proof -
  have a: "\<not> includes_str (ascii ''<html><p>nothing here</p></html>'') startPattern"
    by code_simp
  have b: "episodeBodyMatch (ascii ''<html><p>nothing here</p></html>'') = None"
    by code_simp
  have c: "workBodyMatch (ascii ''<html><p>nothing here</p></html>'') = None"
    by code_simp
  have d: "generalMatch (ascii ''<html><p>nothing here</p></html>'') = []"
    by code_simp
  from extractNovelContent_no_match [of "ascii ''<html><p>nothing here</p></html>''"] a b c d
  show ?thesis by blast
qed

subsection \<open>Titles\<close>








subsection \<open>The order of the steps after the selection\<close>

lemma postProcess_spec:
  "postProcess c = cleanLines (decodeHtmlEntities (stripHtmlTags (lineBreaksToNewlines c)))"
  by (simp add: postProcess_def cleanLines_def lineBreaksToNewlines_def Let_def)

text \<open>
  C9. When a strategy has selected the content \<open>c\<close>, the result of \<^verbatim>\<open>extractNovelContent\<close> is
  \<open>c\<close> with its line-break tags turned into newlines, then the tags stripped, then the
  entities decoded, then the lines cleaned, in this order, and nothing is written to the
  error stream. Stripping comes before decoding: an encoded \<^verbatim>\<open>&lt;b&gt;\<close> in the content is
  still in the result, as \<^verbatim>\<open><b>\<close>.
\<close>

theorem extractNovelContent_pipeline:
  "(selectContent_ncode html = Some c
      \<longrightarrow> extractNovelContent_ncode html
          = (cleanLines (decodeHtmlEntities (stripHtmlTags (lineBreaksToNewlines c))), []))
   \<and> (selectContent_kakuyomu html = Some c
      \<longrightarrow> extractNovelContent_kakuyomu html
          = (cleanLines (decodeHtmlEntities (stripHtmlTags (lineBreaksToNewlines c))), []))
   \<and> extractNovelContent_kakuyomu
        (ascii ''<div class=\"widget-episodeBody\"> &lt;b&gt;x<br />  <i>y</i>  <br><br></div>'')
      = (ascii ''<b>x'' @ [NL] @ ascii ''y'', [])"
proof -
  have "extractNovelContent_kakuyomu
        (ascii ''<div class=\"widget-episodeBody\"> &lt;b&gt;x<br />  <i>y</i>  <br><br></div>'')
      = (ascii ''<b>x'' @ [NL] @ ascii ''y'', [])"
    by code_simp
  then show ?thesis
    by (simp add: extractNovelContent_ncode_def extractNovelContent_kakuyomu_def postProcess_spec)
qed

theorem extractNovelContent_pipeline_witness:
  "selectContent_ncode (ascii ''<div class=\"js-novel-text p-novel__text\"><p>a&amp;b</p><br></div><div>'')
     = Some (ascii ''<div class=\"js-novel-text p-novel__text\"><p>a&amp;b</p><br></div><div>'')
   \<and> extractNovelContent_ncode (ascii ''<div class=\"js-novel-text p-novel__text\"><p>a&amp;b</p><br></div><div>'')
     = (ascii ''a&b'', [])
   \<and> selectContent_kakuyomu (ascii ''<div id=\"widget-episodeBody\"><p>a&amp;b</p><br></div><div>'')
     = Some (ascii ''<p>a&amp;b</p><br>'')
   \<and> extractNovelContent_kakuyomu (ascii ''<div id=\"widget-episodeBody\"><p>a&amp;b</p><br></div><div>'')
     = (ascii ''a&b'', [])"
proof -
  have n: "selectContent_ncode (ascii ''<div class=\"js-novel-text p-novel__text\"><p>a&amp;b</p><br></div><div>'')
     = Some (ascii ''<div class=\"js-novel-text p-novel__text\"><p>a&amp;b</p><br></div><div>'')"
    by code_simp
  have n': "cleanLines (decodeHtmlEntities (stripHtmlTags (lineBreaksToNewlines
      (ascii ''<div class=\"js-novel-text p-novel__text\"><p>a&amp;b</p><br></div><div>'')))) = ascii ''a&b''"
    by code_simp
  have k: "selectContent_kakuyomu (ascii ''<div id=\"widget-episodeBody\"><p>a&amp;b</p><br></div><div>'')
     = Some (ascii ''<p>a&amp;b</p><br>'')"
    by code_simp
  have k': "cleanLines (decodeHtmlEntities (stripHtmlTags (lineBreaksToNewlines
      (ascii ''<p>a&amp;b</p><br>'')))) = ascii ''a&b''"
    by code_simp
  from extractNovelContent_pipeline [of
      "ascii ''<div class=\"js-novel-text p-novel__text\"><p>a&amp;b</p><br></div><div>''"
      "ascii ''<div class=\"js-novel-text p-novel__text\"><p>a&amp;b</p><br></div><div>''"] n n'
  have N: "extractNovelContent_ncode (ascii ''<div class=\"js-novel-text p-novel__text\"><p>a&amp;b</p><br></div><div>'')
     = (ascii ''a&b'', [])"
    by simp
  from extractNovelContent_pipeline [of
      "ascii ''<div id=\"widget-episodeBody\"><p>a&amp;b</p><br></div><div>''"
      "ascii ''<p>a&amp;b</p><br>''"] k k'
  have K: "extractNovelContent_kakuyomu (ascii ''<div id=\"widget-episodeBody\"><p>a&amp;b</p><br></div><div>'')
     = (ascii ''a&b'', [])"
    by simp
  from n N k K show ?thesis by blast
qed

subsection \<open>The download loop\<close>

lemma downloadChapter_fetched:
  "fetched (downloadChapter ex net u i w) = fetched w @ [u]"
  by (simp add: downloadChapter_def fetchUrl_def Let_def split: option.splits prod.splits)

lemma downloadChapter_files:
  "files (downloadChapter ex net u i w)
   = files w @ (case net (length (fetched w)) u of
                  None \<Rightarrow> []
                | Some h \<Rightarrow> if fst (ex h) \<noteq> [] then [(chapterFileName (i + 1), fst (ex h))] else [])"
  by (simp add: downloadChapter_def fetchUrl_def Let_def split: option.splits prod.splits)

lemma downloadChapter_errs:
  "errs (downloadChapter ex net u i w)
   = errs w @ (case net (length (fetched w)) u of
                 None \<Rightarrow> [ChapterFetchError (i + 1)]
               | Some h \<Rightarrow> snd (ex h) @ (if fst (ex h) \<noteq> [] then [] else [ChapterExtractionFailed (i + 1)]))"
  by (simp add: downloadChapter_def fetchUrl_def Let_def split: option.splits prod.splits)

lemma upt_Suc_shift: "[0..<Suc n] = 0 # map Suc [0..<n]"
  by (simp add: upt_conv_Cons map_Suc_upt del: upt_Suc)

lemma map_filter_map: "List.map_filter f (map g xs) = List.map_filter (\<lambda>x. f (g x)) xs"
  by (induction xs) (simp_all add: List.map_filter_simps split: option.splits)

lemma downloadChapters_fetched:
  "fetched (downloadChapters ex net links i w) = fetched w @ links"
  by (induction links arbitrary: i w) (simp_all add: downloadChapter_fetched)

lemma downloadChapters_files:
  "files (downloadChapters ex net links i w)
   = files w @ List.map_filter
       (\<lambda>k. case net (length (fetched w) + k) (links ! k) of
               None \<Rightarrow> None
             | Some h \<Rightarrow> if fst (ex h) \<noteq> [] then Some (chapterFileName (i + k + 1), fst (ex h))
                         else None)
       [0..<length links]"
proof (induction links arbitrary: i w)
  case Nil
  show ?case by (simp add: List.map_filter_simps)
next
  case (Cons u rest)
  show ?case
    by (simp add: Cons.IH downloadChapter_fetched downloadChapter_files upt_Suc_shift
        map_filter_map List.map_filter_simps del: upt_Suc split: option.splits
        cong: option.case_cong if_cong)
qed

lemma downloadChapters_errs:
  "errs (downloadChapters ex net links i w)
   = errs w @ concat (map
       (\<lambda>k. case net (length (fetched w) + k) (links ! k) of
               None \<Rightarrow> [ChapterFetchError (i + k + 1)]
             | Some h \<Rightarrow> snd (ex h) @ (if fst (ex h) \<noteq> [] then []
                                       else [ChapterExtractionFailed (i + k + 1)]))
       [0..<length links])"
proof (induction links arbitrary: i w)
  case Nil
  show ?case by simp
next
  case (Cons u rest)
  show ?case
    by (simp add: Cons.IH downloadChapter_fetched downloadChapter_errs upt_Suc_shift
        comp_def del: upt_Suc split: option.splits cong: option.case_cong if_cong)
qed

lemma main_kakuyomu_five_links_second_fails:
  "(let listingUrl = ascii ''https://kakuyomu.jp/works/1'';
        listing = ascii ''<div class=\"widget-workEpisode\">list</div><a href=\"/works/1/episodes/1\">1</a><a href=\"/works/1/episodes/2\">2</a><a href=\"/works/1/episodes/3\">3</a><a href=\"/works/1/episodes/4\">4</a><a href=\"/works/1/episodes/5\">5</a>'';
        chapter = ascii ''<div class=\"widget-episodeBody\"><p>text</p></div>'';
        URL = (\<lambda>s. if s = listingUrl
                   then Some \<lparr>protocol = ascii ''https:'', hostname = ascii ''kakuyomu.jp'', href = s\<rparr>
                   else None);
        net = (\<lambda>n u. if u = listingUrl then Some listing
                      else if u = ascii ''https://kakuyomu.jp/works/1/episodes/2'' then None
                      else Some chapter)
    in main_kakuyomu URL net [listingUrl])
   = (0, \<lparr>fetched = [ascii ''https://kakuyomu.jp/works/1'',
                      ascii ''https://kakuyomu.jp/works/1/episodes/1'',
                      ascii ''https://kakuyomu.jp/works/1/episodes/2'',
                      ascii ''https://kakuyomu.jp/works/1/episodes/3''],
          files = [(ascii ''index.html'', ascii ''<div class=\"widget-workEpisode\">list</div><a href=\"/works/1/episodes/1\">1</a><a href=\"/works/1/episodes/2\">2</a><a href=\"/works/1/episodes/3\">3</a><a href=\"/works/1/episodes/4\">4</a><a href=\"/works/1/episodes/5\">5</a>''),
                   (ascii ''content.txt'', ascii ''list''),
                   (ascii ''chapter_001.txt'', ascii ''text''),
                   (ascii ''chapter_003.txt'', ascii ''text'')],
          errs = [ChapterFetchError 2]\<rparr>)"
  by code_simp

lemma chapterFileName_examples:
  "chapterFileName 7 = ascii ''chapter_007.txt'' \<and> chapterFileName 42 = ascii ''chapter_042.txt''
   \<and> chapterFileName 123 = ascii ''chapter_123.txt''
   \<and> chapterFileName 1000 = ascii ''chapter_1000.txt''"
  by code_simp

text \<open>
  C2. The loop gives every entry to \<^verbatim>\<open>fetchUrl\<close>, in the order of the list, whatever happens
  to the entries before it. An entry writes a file exactly when its fetch answers and the
  extracted body is not empty; the file of the entry at position \<open>k\<close> (from 0) of a loop
  started at \<open>i\<close> is \<^verbatim>\<open>chapter_NNN.txt\<close> for the number \<open>i + k + 1\<close>, so the numbers are the
  positions in the list and not a count of the files; the number is written with at least
  three digits, zeros in front. A failed fetch and an empty body each
  leave a diagnostic with that number. With five links in the listing, the cap of 3 of the
  kakuyomu script and a failing fetch for the second link, the run ends with status 0 and
  has written \<^verbatim>\<open>chapter_001.txt\<close> and \<^verbatim>\<open>chapter_003.txt\<close> beside the two files of the listing.
\<close>

theorem downloadChapters_effects:
  "fetched (downloadChapters ex net links i w) = fetched w @ links
   \<and> files (downloadChapters ex net links i w)
       = files w @ List.map_filter
           (\<lambda>k. case net (length (fetched w) + k) (links ! k) of
                   None \<Rightarrow> None
                 | Some h \<Rightarrow> if fst (ex h) \<noteq> [] then Some (chapterFileName (i + k + 1), fst (ex h))
                             else None)
           [0..<length links]
   \<and> errs (downloadChapters ex net links i w)
       = errs w @ concat (map
           (\<lambda>k. case net (length (fetched w) + k) (links ! k) of
                   None \<Rightarrow> [ChapterFetchError (i + k + 1)]
                 | Some h \<Rightarrow> snd (ex h) @ (if fst (ex h) \<noteq> [] then []
                                           else [ChapterExtractionFailed (i + k + 1)]))
           [0..<length links])
   \<and> chapterFileName 7 = ascii ''chapter_007.txt'' \<and> chapterFileName 42 = ascii ''chapter_042.txt''
   \<and> chapterFileName 123 = ascii ''chapter_123.txt''
   \<and> chapterFileName 1000 = ascii ''chapter_1000.txt''
   \<and> (let listingUrl = ascii ''https://kakuyomu.jp/works/1'';
        listing = ascii ''<div class=\"widget-workEpisode\">list</div><a href=\"/works/1/episodes/1\">1</a><a href=\"/works/1/episodes/2\">2</a><a href=\"/works/1/episodes/3\">3</a><a href=\"/works/1/episodes/4\">4</a><a href=\"/works/1/episodes/5\">5</a>'';
        chapter = ascii ''<div class=\"widget-episodeBody\"><p>text</p></div>'';
        URL = (\<lambda>s. if s = listingUrl
                   then Some \<lparr>protocol = ascii ''https:'', hostname = ascii ''kakuyomu.jp'', href = s\<rparr>
                   else None);
        net = (\<lambda>n u. if u = listingUrl then Some listing
                      else if u = ascii ''https://kakuyomu.jp/works/1/episodes/2'' then None
                      else Some chapter)
    in main_kakuyomu URL net [listingUrl])
   = (0, \<lparr>fetched = [ascii ''https://kakuyomu.jp/works/1'',
                      ascii ''https://kakuyomu.jp/works/1/episodes/1'',
                      ascii ''https://kakuyomu.jp/works/1/episodes/2'',
                      ascii ''https://kakuyomu.jp/works/1/episodes/3''],
          files = [(ascii ''index.html'', ascii ''<div class=\"widget-workEpisode\">list</div><a href=\"/works/1/episodes/1\">1</a><a href=\"/works/1/episodes/2\">2</a><a href=\"/works/1/episodes/3\">3</a><a href=\"/works/1/episodes/4\">4</a><a href=\"/works/1/episodes/5\">5</a>''),
                   (ascii ''content.txt'', ascii ''list''),
                   (ascii ''chapter_001.txt'', ascii ''text''),
                   (ascii ''chapter_003.txt'', ascii ''text'')],
          errs = [ChapterFetchError 2]\<rparr>)"
  using downloadChapters_fetched [of ex net links i w] downloadChapters_files [of ex net links i w]
    downloadChapters_errs [of ex net links i w] chapterFileName_examples
    main_kakuyomu_five_links_second_fails
  by (intro conjI) blast+

subsection \<open>Which URLs are fetched\<close>

lemma main_fetched:
  assumes "parseArguments args = Return s" and "validateUrl URL D s = Return u"
    and "net 0 (href u) = Some html"
  shows "fetched (snd (main D ex el dc URL net args))
         = href u # take (dc (length (el html))) (el html)"
  using assms
  by (simp add: main_def fetchUrl_def world0_def Let_def downloadChapters_fetched
      split: prod.splits)

text \<open>
  C5. The claim: no URL on another host is ever given to \<^verbatim>\<open>fetchUrl\<close>. The ncode script
  checks the host of the URL of the command line only. A link of the listing that starts
  with \<^verbatim>\<open>http\<close> is taken as it is and fetched in the download loop: for a listing that holds
  \<^verbatim>\<open>href="https://evil.example/n9734kw/1"\<close> the second request of the run goes to
  \<^verbatim>\<open>evil.example\<close>. (The kakuyomu script puts its own host in front of every link.)
\<close>

theorem main_ncode_fetches_foreign_host:
  "(let listingUrl = ascii ''https://ncode.syosetu.com/n9734kw/'';
        listing = ascii ''<a href=\"https://evil.example/n9734kw/1\">next</a>'';
        URL = (\<lambda>s. if s = listingUrl
                   then Some \<lparr>protocol = ascii ''https:'', hostname = ascii ''ncode.syosetu.com'', href = s\<rparr>
                   else None);
        net = (\<lambda>n u. if u = listingUrl then Some listing else None)
    in fetched (snd (main_ncode URL net [listingUrl])))
   = [ascii ''https://ncode.syosetu.com/n9734kw/'', ascii ''https://evil.example/n9734kw/1'']"
  by code_simp

subsection \<open>The validation of the URL\<close>

lemma validateUrl_Return:
  "validateUrl URL D s = Return u
   \<longleftrightarrow> URL s = Some u \<and> protocol u = ascii ''https:'' \<and> hostname u = D"
  by (auto simp: validateUrl_def split: option.splits)

lemma main_invalid_url:
  assumes "parseArguments args = Return s"
    and "URL s = None
         \<or> (\<exists>u. URL s = Some u \<and> (protocol u \<noteq> ascii ''https:'' \<or> hostname u \<noteq> D))"
  shows "\<exists>d. main D ex el dc URL net args = (1, \<lparr>fetched = [], files = [], errs = [d]\<rparr>)"
  using assms by (auto simp: main_def validateUrl_def world0_def split: option.splits)


end
